theory Spec2Isabelle
  imports Main "HOL-Library.Word"
begin

section \<open>The gpio_button_led driver (gpioctrl.c)\<close>

text \<open>
  A shallow embedding of \<^verbatim>\<open>src/target/src/gpioctrl.c\<close>. The module's static
  variables are the fields of a record that every function takes and returns. Each call
  into the kernel is appended to a trace, with the value the kernel returned, so that the
  order of acquisitions, writes and releases can be read off afterwards. What the kernel
  answers is not part of the repository: it is a parameter (the record \<open>kernel\<close>), and
  the two values a deferred evaluation reads (\<^verbatim>\<open>jiffies\<close> and the level of the button
  line) are arguments of the work handler.
\<close>

subsection \<open>Machine types and constants\<close>

text \<open>
  The module is built for 32-bit ARM (the generated \<^verbatim>\<open>gpioctrl.mod.c\<close> references
  \<^verbatim>\<open>__gnu_mcount_nc\<close>), so \<^verbatim>\<open>unsigned long\<close> and \<^verbatim>\<open>unsigned int\<close> are 32-bit
  words: subtraction wraps and \<open><\<close> compares unsigned. Values of C type \<^verbatim>\<open>int\<close> are
  only compared with 0 and passed on, never computed with; they are HOL integers.
\<close>

type_synonym ulong = "32 word"
type_synonym uint = "32 word"

definition BUTTON_GPIO :: int where
  "BUTTON_GPIO = 44"

definition LED_GPIO :: int where
  "LED_GPIO = 61"

text \<open>The errno values of the kernel's \<^verbatim>\<open>errno-base.h\<close>.\<close>

definition ENOMEM :: int where
  "ENOMEM = 12"

definition ENODEV :: int where
  "ENODEV = 19"

datatype irqreturn = IRQ_NONE | IRQ_HANDLED | IRQ_WAKE_THREAD

subsection \<open>Kernel calls\<close>

text \<open>One constructor per kernel function the driver calls: arguments first, then the result.\<close>

datatype call =
    GpioIsValid int bool
  | GpioRequest int int
  | GpioDirectionInput int int
  | GpioDirectionOutput int int int
  | CreateWorkqueue bool
  | InitWork
  | GpioToIrq int int
  | RequestIrq uint int
  | QueueWork
  | GpioGetValue int int
  | GpioSetValue int int
  | FreeIrq uint
  | DestroyWorkqueue
  | GpioFree int

text \<open>The messages of the driver's \<^verbatim>\<open>printk\<close> calls, with their format arguments.\<close>

datatype log_msg =
    MsgInitializing
  | MsgInvalidButtonGpio int
  | MsgFailedRequestButton int
  | MsgFailedButtonDirection
  | MsgInvalidLedGpio int
  | MsgFailedRequestLed int
  | MsgFailedLedDirection
  | MsgFailedWorkqueue
  | MsgFailedGetIrq
  | MsgFailedRequestIrq uint
  | MsgLoaded
  | MsgLoadedInfo int int uint
  | MsgButtonPressed bool
  | MsgCleaningUp
  | MsgUnloaded

text \<open>
  What the kernel answers. \<open>create_singlethread_workqueue\<close> is \<open>True\<close> when the pointer
  returned is not NULL. \<open>msecs_to_jiffies\<close> depends on the kernel's HZ.
\<close>

record kernel =
  gpio_is_valid :: "int \<Rightarrow> bool"
  gpio_request :: "int \<Rightarrow> int"
  gpio_direction_input :: "int \<Rightarrow> int"
  gpio_direction_output :: "int \<Rightarrow> int \<Rightarrow> int"
  create_singlethread_workqueue :: bool
  gpio_to_irq :: "int \<Rightarrow> int"
  request_irq :: "uint \<Rightarrow> int"
  msecs_to_jiffies :: "nat \<Rightarrow> ulong"

subsection \<open>Module state\<close>

text \<open>
  The file-scope statics \<^verbatim>\<open>irq_number\<close>, \<^verbatim>\<open>led_state\<close>, \<^verbatim>\<open>button_wq\<close> (\<open>True\<close>
  when not NULL) and the function-local static \<^verbatim>\<open>last_interrupt_time\<close> of
  \<^verbatim>\<open>button_work_handler\<close>, with the trace of kernel calls and the kernel log.
\<close>

record module_state =
  irq_number :: uint
  led_state :: bool
  button_wq :: bool
  last_interrupt_time :: ulong
  trace :: "call list"
  klog :: "log_msg list"

text \<open>The state when the module has been loaded and no function of it has run.\<close>

definition module_load_state :: module_state where
  "module_load_state =
     \<lparr>irq_number = 0, led_state = False, button_wq = False, last_interrupt_time = 0,
      trace = [], klog = []\<rparr>"

definition emit :: "call \<Rightarrow> module_state \<Rightarrow> module_state" where
  "emit c s = s\<lparr>trace := trace s @ [c]\<rparr>"

definition printk :: "log_msg \<Rightarrow> module_state \<Rightarrow> module_state" where
  "printk m s = s\<lparr>klog := klog s @ [m]\<rparr>"

subsection \<open>button_work_handler\<close>

text \<open>
  \<open>jiffies\<close> is the value of the tick counter read at line 28; \<open>level\<close> is what
  \<^verbatim>\<open>gpio_get_value(BUTTON_GPIO)\<close> returns if line 37 is reached.
\<close>

definition button_work_handler ::
    "kernel \<Rightarrow> ulong \<Rightarrow> int \<Rightarrow> module_state \<Rightarrow> module_state" where
  "button_work_handler k jiffies level s =
     (let interrupt_time = jiffies in
      if interrupt_time - last_interrupt_time s < msecs_to_jiffies k 200 then s
      else
        let s = s\<lparr>last_interrupt_time := interrupt_time\<rparr>;
            s = emit (GpioGetValue BUTTON_GPIO level) s
        in if level = 0 then
             let s = s\<lparr>led_state := \<not> led_state s\<rparr>;
                 s = emit (GpioSetValue LED_GPIO (of_bool (led_state s))) s
             in printk (MsgButtonPressed (led_state s)) s
           else s)"

subsection \<open>button_irq_handler\<close>

definition button_irq_handler :: "module_state \<Rightarrow> irqreturn \<times> module_state" where
  "button_irq_handler s = (IRQ_HANDLED, emit QueueWork s)"

subsection \<open>gpio_button_led_init\<close>

text \<open>The three labels at the end of the function; each falls through to the next.\<close>

definition fail_button_direction :: "module_state \<Rightarrow> module_state" where
  "fail_button_direction s = emit (GpioFree BUTTON_GPIO) s"

definition fail_led_direction :: "module_state \<Rightarrow> module_state" where
  "fail_led_direction s = fail_button_direction (emit (GpioFree LED_GPIO) s)"

definition fail_workqueue :: "module_state \<Rightarrow> module_state" where
  "fail_workqueue s = fail_led_direction (emit DestroyWorkqueue s)"

text \<open>
  \<^verbatim>\<open>irq_number\<close> is unsigned: the \<^verbatim>\<open>int\<close> that \<^verbatim>\<open>gpio_to_irq\<close> returns is converted
  modulo \<open>2 ^ 32\<close>, and the test \<^verbatim>\<open>irq_number < 0\<close> of line 114 is an unsigned comparison.
\<close>

definition gpio_button_led_init :: "kernel \<Rightarrow> module_state \<Rightarrow> int \<times> module_state" where
  "gpio_button_led_init k s0 =
     (let s = printk MsgInitializing s0;
          s = emit (GpioIsValid BUTTON_GPIO (gpio_is_valid k BUTTON_GPIO)) s
      in if \<not> gpio_is_valid k BUTTON_GPIO
         then (- ENODEV, printk (MsgInvalidButtonGpio BUTTON_GPIO) s)
         else
      let result = gpio_request k BUTTON_GPIO;
          s = emit (GpioRequest BUTTON_GPIO result) s
      in if result < 0
         then (result, printk (MsgFailedRequestButton BUTTON_GPIO) s)
         else
      let result = gpio_direction_input k BUTTON_GPIO;
          s = emit (GpioDirectionInput BUTTON_GPIO result) s
      in if result < 0
         then (result, fail_button_direction (printk MsgFailedButtonDirection s))
         else
      let s = emit (GpioIsValid LED_GPIO (gpio_is_valid k LED_GPIO)) s
      in if \<not> gpio_is_valid k LED_GPIO
         then (- ENODEV, fail_button_direction (printk (MsgInvalidLedGpio LED_GPIO) s))
         else
      let result = gpio_request k LED_GPIO;
          s = emit (GpioRequest LED_GPIO result) s
      in if result < 0
         then (result, fail_button_direction (printk (MsgFailedRequestLed LED_GPIO) s))
         else
      let result = gpio_direction_output k LED_GPIO 0;
          s = emit (GpioDirectionOutput LED_GPIO 0 result) s
      in if result < 0
         then (result, fail_led_direction (printk MsgFailedLedDirection s))
         else
      let wq = create_singlethread_workqueue k;
          s = emit (CreateWorkqueue wq) (s\<lparr>button_wq := wq\<rparr>)
      in if \<not> button_wq s
         then (- ENOMEM, fail_led_direction (printk MsgFailedWorkqueue s))
         else
      let s = emit InitWork s;
          r = gpio_to_irq k BUTTON_GPIO;
          s = emit (GpioToIrq BUTTON_GPIO r) (s\<lparr>irq_number := word_of_int r\<rparr>)
      in if irq_number s < 0
         then (sint (irq_number s), fail_workqueue (printk MsgFailedGetIrq s))
         else
      let result = request_irq k (irq_number s);
          s = emit (RequestIrq (irq_number s) result) s
      in if result < 0
         then (result, fail_workqueue (printk (MsgFailedRequestIrq (irq_number s)) s))
         else (0, printk (MsgLoadedInfo BUTTON_GPIO LED_GPIO (irq_number s))
                    (printk MsgLoaded s)))"

subsection \<open>gpio_button_led_exit\<close>

definition gpio_button_led_exit :: "module_state \<Rightarrow> module_state" where
  "gpio_button_led_exit s0 =
     (let s = printk MsgCleaningUp s0;
          s = emit (FreeIrq (irq_number s)) s;
          s = emit DestroyWorkqueue s;
          s = emit (GpioSetValue LED_GPIO 0) s;
          s = emit (GpioFree LED_GPIO) s;
          s = emit (GpioFree BUTTON_GPIO) s
      in printk MsgUnloaded s)"

subsection \<open>Reading the trace\<close>

text \<open>
  What a call acquires and what it releases. The driver treats a result that is not
  negative as success (\<^verbatim>\<open>if (result < 0)\<close>) and a workqueue pointer that is not NULL.
\<close>

datatype resource = Gpio int | Workqueue | Irq uint

fun acquires :: "call \<Rightarrow> resource option" where
  "acquires (GpioRequest g r) = (if r < 0 then None else Some (Gpio g))"
| "acquires (CreateWorkqueue ok) = (if ok then Some Workqueue else None)"
| "acquires (RequestIrq n r) = (if r < 0 then None else Some (Irq n))"
| "acquires _ = None"

fun releases :: "call \<Rightarrow> resource option" where
  "releases (GpioFree g) = Some (Gpio g)"
| "releases DestroyWorkqueue = Some Workqueue"
| "releases (FreeIrq n) = Some (Irq n)"
| "releases _ = None"

definition acquired :: "call list \<Rightarrow> resource list" where
  "acquired tr = List.map_filter acquires tr"

definition released :: "call list \<Rightarrow> resource list" where
  "released tr = List.map_filter releases tr"

text \<open>The resources still held after a trace, the most recently acquired first.\<close>

definition track :: "call \<Rightarrow> resource list \<Rightarrow> resource list" where
  "track c held =
     (case acquires c of
        Some r \<Rightarrow> r # held
      | None \<Rightarrow> (case releases c of Some r \<Rightarrow> remove1 r held | None \<Rightarrow> held))"

definition live :: "call list \<Rightarrow> resource list" where
  "live tr = fold track tr []"

text \<open>
  The level a call drives on a line: \<^verbatim>\<open>gpio_direction_output\<close> sets the initial level
  when it succeeds, \<^verbatim>\<open>gpio_set_value\<close> sets the level.
\<close>

fun drives :: "call \<Rightarrow> (int \<times> int) option" where
  "drives (GpioDirectionOutput g v r) = (if r < 0 then None else Some (g, v))"
| "drives (GpioSetValue g v) = Some (g, v)"
| "drives _ = None"

definition drive :: "int \<Rightarrow> call \<Rightarrow> int option \<Rightarrow> int option" where
  "drive g c lv =
     (case drives c of Some (g', v) \<Rightarrow> if g' = g then Some v else lv | None \<Rightarrow> lv)"

text \<open>The level last written to line \<open>g\<close> in a trace; \<open>None\<close> when it was never written.\<close>

definition line_level :: "int \<Rightarrow> call list \<Rightarrow> int option" where
  "line_level g tr = fold (drive g) tr None"

text \<open>\<open>led_state\<close> is the level last written to the LED line.\<close>

definition mirrors :: "module_state \<Rightarrow> bool" where
  "mirrors s = (line_level LED_GPIO (trace s) = Some (of_bool (led_state s)))"

subsection \<open>Runs of the loaded module\<close>

text \<open>
  Between init and exit the kernel calls into the module in two ways: the interrupt
  (\<open>Edge\<close>) and the workqueue running the work item (\<open>Work jiffies level\<close>, with the
  two values the handler reads).
\<close>

datatype event = Edge | Work ulong int

fun step :: "kernel \<Rightarrow> module_state \<Rightarrow> event \<Rightarrow> module_state" where
  "step k s Edge = snd (button_irq_handler s)"
| "step k s (Work jiffies level) = button_work_handler k jiffies level s"

definition run :: "kernel \<Rightarrow> module_state \<Rightarrow> event list \<Rightarrow> module_state" where
  "run k s evs = foldl (step k) s evs"

text \<open>The state after each event of a run, in order.\<close>

fun states_after :: "kernel \<Rightarrow> module_state \<Rightarrow> event list \<Rightarrow> module_state list" where
  "states_after k s [] = []"
| "states_after k s (e # es) = step k s e # states_after k (step k s e) es"

text \<open>The events of a run whose processing changed \<open>led_state\<close>.\<close>

fun toggling :: "kernel \<Rightarrow> module_state \<Rightarrow> event list \<Rightarrow> event list" where
  "toggling k s [] = []"
| "toggling k s (e # es) =
     (if led_state (step k s e) \<noteq> led_state s then [e] else []) @ toggling k (step k s e) es"

text \<open>
  Timestamps each at least \<open>w\<close> after the one before, the first at least \<open>w\<close> after
  \<open>prev\<close>, in the driver's unsigned arithmetic.
\<close>

fun spaced :: "ulong \<Rightarrow> ulong \<Rightarrow> ulong list \<Rightarrow> bool" where
  "spaced w prev [] = True"
| "spaced w prev (t # ts) = (\<not> t - prev < w \<and> spaced w t ts)"

subsection \<open>Sample kernels\<close>

text \<open>
  A kernel with HZ = 1000, where one jiffy is one millisecond, on which every call
  succeeds and the button line maps to interrupt 76.
\<close>

definition kernel_hz1000 :: kernel where
  "kernel_hz1000 =
     \<lparr>gpio_is_valid = (\<lambda>g. True),
      gpio_request = (\<lambda>g. 0),
      gpio_direction_input = (\<lambda>g. 0),
      gpio_direction_output = (\<lambda>g v. 0),
      create_singlethread_workqueue = True,
      gpio_to_irq = (\<lambda>g. 76),
      request_irq = (\<lambda>n. 0),
      msecs_to_jiffies = (\<lambda>m. of_nat m)\<rparr>"

text \<open>The module state after a successful init on that kernel.\<close>

definition loaded :: module_state where
  "loaded = snd (gpio_button_led_init kernel_hz1000 module_load_state)"

text \<open>The same kernel, on which the LED line number is not valid.\<close>

definition kernel_led_invalid :: kernel where
  "kernel_led_invalid = kernel_hz1000\<lparr>gpio_is_valid := (\<lambda>g. g \<noteq> LED_GPIO)\<rparr>"

text \<open>The same kernel, on which the interrupt is already taken: -EBUSY.\<close>

definition kernel_irq_busy :: kernel where
  "kernel_irq_busy = kernel_hz1000\<lparr>request_irq := (\<lambda>n. - 16)\<rparr>"


section \<open>Auxiliary facts\<close>

lemmas unfold_state = emit_def printk_def Let_def

lemma handler_cases:
  "button_work_handler k t l s =
     (if t - last_interrupt_time s < msecs_to_jiffies k 200 then s
      else if l = 0 then
        s\<lparr>led_state := \<not> led_state s, last_interrupt_time := t,
          trace := trace s @ [GpioGetValue BUTTON_GPIO l, GpioSetValue LED_GPIO (of_bool (\<not> led_state s))],
          klog := klog s @ [MsgButtonPressed (\<not> led_state s)]\<rparr>
      else s\<lparr>last_interrupt_time := t, trace := trace s @ [GpioGetValue BUTTON_GPIO l]\<rparr>)"
  by (simp add: button_work_handler_def unfold_state)

lemma init_success_state:
  assumes "gpio_button_led_init k module_load_state = (0, s)"
  shows "s = \<lparr>irq_number = word_of_int (gpio_to_irq k BUTTON_GPIO), led_state = False,
              button_wq = True, last_interrupt_time = 0,
              trace = [GpioIsValid BUTTON_GPIO True,
                       GpioRequest BUTTON_GPIO (gpio_request k BUTTON_GPIO),
                       GpioDirectionInput BUTTON_GPIO (gpio_direction_input k BUTTON_GPIO),
                       GpioIsValid LED_GPIO True,
                       GpioRequest LED_GPIO (gpio_request k LED_GPIO),
                       GpioDirectionOutput LED_GPIO 0 (gpio_direction_output k LED_GPIO 0),
                       CreateWorkqueue True, InitWork,
                       GpioToIrq BUTTON_GPIO (gpio_to_irq k BUTTON_GPIO),
                       RequestIrq (word_of_int (gpio_to_irq k BUTTON_GPIO))
                         (request_irq k (word_of_int (gpio_to_irq k BUTTON_GPIO)))],
              klog = [MsgInitializing, MsgLoaded,
                      MsgLoadedInfo BUTTON_GPIO LED_GPIO (word_of_int (gpio_to_irq k BUTTON_GPIO))]\<rparr>
         \<and> \<not> gpio_direction_output k LED_GPIO 0 < 0"
  using assms
  by (simp add: gpio_button_led_init_def module_load_state_def unfold_state
      fail_button_direction_def fail_led_direction_def fail_workqueue_def ENODEV_def ENOMEM_def
      split: if_splits)

lemma loaded_eq:
  "gpio_button_led_init kernel_hz1000 module_load_state = (0, loaded)"
  by (simp add: loaded_def gpio_button_led_init_def module_load_state_def unfold_state kernel_hz1000_def)

lemma loaded_state:
  "loaded = \<lparr>irq_number = 76, led_state = False, button_wq = True, last_interrupt_time = 0,
      trace = [GpioIsValid 44 True, GpioRequest 44 0, GpioDirectionInput 44 0,
               GpioIsValid 61 True, GpioRequest 61 0, GpioDirectionOutput 61 0 0,
               CreateWorkqueue True, InitWork, GpioToIrq 44 76, RequestIrq 76 0],
      klog = [MsgInitializing, MsgLoaded, MsgLoadedInfo 44 61 76]\<rparr>"
  by (simp add: loaded_def gpio_button_led_init_def module_load_state_def unfold_state
      kernel_hz1000_def BUTTON_GPIO_def LED_GPIO_def)

lemma window_hz1000: "msecs_to_jiffies kernel_hz1000 200 = 200"
  by (simp add: kernel_hz1000_def)

lemmas init_unfold = gpio_button_led_init_def module_load_state_def unfold_state
  fail_button_direction_def fail_led_direction_def fail_workqueue_def ENODEV_def ENOMEM_def

lemmas trace_reading = acquired_def released_def live_def track_def

lemma led_invalid_eq:
  "gpio_button_led_init kernel_led_invalid module_load_state =
     (- 19, \<lparr>irq_number = 0, led_state = False, button_wq = False, last_interrupt_time = 0,
        trace = [GpioIsValid 44 True, GpioRequest 44 0, GpioDirectionInput 44 0,
                 GpioIsValid 61 False, GpioFree 44],
        klog = [MsgInitializing, MsgInvalidLedGpio 61]\<rparr>)"
  by (simp add: init_unfold kernel_led_invalid_def kernel_hz1000_def BUTTON_GPIO_def LED_GPIO_def)

lemma irq_busy_eq:
  "gpio_button_led_init kernel_irq_busy module_load_state =
     (- 16, \<lparr>irq_number = 76, led_state = False, button_wq = True, last_interrupt_time = 0,
        trace = [GpioIsValid 44 True, GpioRequest 44 0, GpioDirectionInput 44 0,
                 GpioIsValid 61 True, GpioRequest 61 0, GpioDirectionOutput 61 0 0,
                 CreateWorkqueue True, InitWork, GpioToIrq 44 76, RequestIrq 76 (- 16),
                 DestroyWorkqueue, GpioFree 61, GpioFree 44],
        klog = [MsgInitializing, MsgFailedRequestIrq 76]\<rparr>)"
  by (simp add: init_unfold kernel_irq_busy_def kernel_hz1000_def BUTTON_GPIO_def LED_GPIO_def)


lemma run_Cons: "run k s (e # evs) = run k (step k s e) evs"
  by (simp add: run_def)

lemma run_Nil: "run k s [] = s"
  by (simp add: run_def)

lemma step_mirrors: "mirrors s \<Longrightarrow> mirrors (step k s e)"
  by (cases e)
    (simp_all add: mirrors_def handler_cases button_irq_handler_def emit_def
      line_level_def drive_def)

lemma run_mirrors: "mirrors s \<Longrightarrow> mirrors (run k s evs)"
  by (induction evs arbitrary: s) (simp_all add: run_Nil run_Cons step_mirrors)

lemma step_changes_led:
  assumes "led_state (step k s e) \<noteq> led_state s"
  shows "(\<exists>t. e = Work t 0 \<and> \<not> t - last_interrupt_time s < msecs_to_jiffies k 200) \<and>
         trace (step k s e) = trace s @ [GpioGetValue BUTTON_GPIO 0,
            GpioSetValue LED_GPIO (of_bool (led_state (step k s e)))]"
  using assms
  by (cases e) (auto simp: handler_cases button_irq_handler_def emit_def split: if_splits)

lemma exit_led:
  "led_state (gpio_button_led_exit s) = led_state s \<and>
   line_level LED_GPIO (trace (gpio_button_led_exit s)) = Some 0"
  by (simp add: gpio_button_led_exit_def unfold_state line_level_def drive_def LED_GPIO_def BUTTON_GPIO_def)

lemma pressed_run:
  "spaced (msecs_to_jiffies k 200) (last_interrupt_time s) ts \<Longrightarrow>
     toggling k s (map (\<lambda>t. Work t 0) ts) = map (\<lambda>t. Work t 0) ts \<and>
     (\<forall>s' \<in> set (states_after k s (map (\<lambda>t. Work t 0) ts)). mirrors s')"
proof (induction ts arbitrary: s)
  case Nil
  then show ?case by simp
next
  case (Cons t ts)
  let ?s1 = "button_work_handler k t 0 s"
  from Cons.prems have acc: "\<not> t - last_interrupt_time s < msecs_to_jiffies k 200"
    and rest: "spaced (msecs_to_jiffies k 200) t ts"
    by simp_all
  from acc have stamp: "last_interrupt_time ?s1 = t"
    and flip: "led_state ?s1 \<noteq> led_state s"
    and m: "mirrors ?s1"
    by (simp_all add: handler_cases mirrors_def line_level_def drive_def)
  from rest stamp have "spaced (msecs_to_jiffies k 200) (last_interrupt_time ?s1) ts"
    by simp
  from Cons.IH [OF this] flip m show ?case by simp
qed

lemma scenario_one:
  "toggling kernel_hz1000 loaded [Work 0 0, Work 50 0, Work 250 0] = [Work 250 0]"
  by (simp add: handler_cases loaded_state window_hz1000)

lemma two_spaced_presses:
  "toggling kernel_hz1000 loaded [Work 0 0, Work 250 0] = [Work 250 0]"
  by (simp add: handler_cases loaded_state window_hz1000)

section \<open>The debounce filter\<close>

text \<open>
  C1. A notification processed at time \<open>jiffies\<close> less than the window after the stored
  timestamp is rejected and leaves the whole state as it was: \<open>led_state\<close>, the stored
  timestamp and the trace of kernel calls (so the output line is not written). Otherwise
  the stored timestamp becomes \<open>jiffies\<close>. The timestamp therefore changes only on
  acceptance.
\<close>

theorem debounce_reject_or_stamp:
  "(jiffies - last_interrupt_time s < msecs_to_jiffies k 200 \<longrightarrow>
      button_work_handler k jiffies level s = s) \<and>
   (\<not> jiffies - last_interrupt_time s < msecs_to_jiffies k 200 \<longrightarrow>
      last_interrupt_time (button_work_handler k jiffies level s) = jiffies)"
  by (simp add: button_work_handler_def Let_def emit_def printk_def)

theorem debounce_reject_or_stamp_witness:
  "((50 :: ulong) - last_interrupt_time loaded < msecs_to_jiffies kernel_hz1000 200 \<and>
      button_work_handler kernel_hz1000 50 0 loaded = loaded) \<and>
   (\<not> (250 :: ulong) - last_interrupt_time loaded < msecs_to_jiffies kernel_hz1000 200 \<and>
      last_interrupt_time (button_work_handler kernel_hz1000 250 0 loaded) = 250)"
  using debounce_reject_or_stamp [of 50 loaded kernel_hz1000 0]
    debounce_reject_or_stamp [of 250 loaded kernel_hz1000 0]
  by (simp add: loaded_state window_hz1000)

text \<open>
  C2. A notification that passes the filter samples the button line. When the level read
  is 0 (pressed, active low), \<open>led_state\<close> is flipped and its new value is written to the
  LED line. When the level is anything else, \<open>led_state\<close> stays, nothing is written to
  the LED line and nothing is logged: the handler has no error result, it just returns. In
  both cases the stored timestamp has become \<open>jiffies\<close>.
\<close>

theorem accepted_samples_then_toggles_if_pressed:
  assumes "\<not> jiffies - last_interrupt_time s < msecs_to_jiffies k 200"
  shows "(let s' = button_work_handler k jiffies level s in
          (level = 0 \<longrightarrow>
             led_state s' = (\<not> led_state s) \<and>
             trace s' = trace s @ [GpioGetValue BUTTON_GPIO level,
                                   GpioSetValue LED_GPIO (of_bool (led_state s'))]) \<and>
          (level \<noteq> 0 \<longrightarrow>
             led_state s' = led_state s \<and>
             trace s' = trace s @ [GpioGetValue BUTTON_GPIO level] \<and>
             klog s' = klog s) \<and>
          last_interrupt_time s' = jiffies)"
  using assms by (simp add: handler_cases)

theorem accepted_samples_then_toggles_if_pressed_witness:
  "\<not> (250 :: ulong) - last_interrupt_time loaded < msecs_to_jiffies kernel_hz1000 200 \<and>
   led_state (button_work_handler kernel_hz1000 250 0 loaded) \<and>
   trace (button_work_handler kernel_hz1000 250 0 loaded) =
     trace loaded @ [GpioGetValue BUTTON_GPIO 0, GpioSetValue LED_GPIO 1] \<and>
   \<not> led_state (button_work_handler kernel_hz1000 250 1 loaded) \<and>
   trace (button_work_handler kernel_hz1000 250 1 loaded) =
     trace loaded @ [GpioGetValue BUTTON_GPIO 1] \<and>
   last_interrupt_time (button_work_handler kernel_hz1000 250 1 loaded) = 250"
proof -
  have h: "\<not> (250 :: ulong) - last_interrupt_time loaded < msecs_to_jiffies kernel_hz1000 200"
    by (simp add: loaded_state window_hz1000)
  show ?thesis
    using h accepted_samples_then_toggles_if_pressed [OF h, of 0]
      accepted_samples_then_toggles_if_pressed [OF h, of 1]
    by (simp add: Let_def loaded_state)
qed

text \<open>
  C4. The window is closed at its lower edge: a notification processed exactly
  \<open>msecs_to_jiffies(200)\<close> after the stored timestamp is accepted, that is, the timestamp
  is updated, the button line is sampled and, when it reads 0, the LED is toggled.
\<close>

theorem window_edge_accepted:
  assumes "jiffies - last_interrupt_time s = msecs_to_jiffies k 200"
  shows "(let s' = button_work_handler k jiffies level s in
          last_interrupt_time s' = jiffies \<and>
          led_state s' = (if level = 0 then \<not> led_state s else led_state s) \<and>
          trace s' = trace s @ GpioGetValue BUTTON_GPIO level #
            (if level = 0 then [GpioSetValue LED_GPIO (of_bool (\<not> led_state s))] else []))"
  using assms by (simp add: handler_cases)

theorem window_edge_accepted_witness:
  "(200 :: ulong) - last_interrupt_time loaded = msecs_to_jiffies kernel_hz1000 200 \<and>
   last_interrupt_time (button_work_handler kernel_hz1000 200 0 loaded) = 200 \<and>
   led_state (button_work_handler kernel_hz1000 200 0 loaded) \<and>
   trace (button_work_handler kernel_hz1000 200 0 loaded) =
     trace loaded @ [GpioGetValue BUTTON_GPIO 0, GpioSetValue LED_GPIO 1]"
proof -
  have h: "(200 :: ulong) - last_interrupt_time loaded = msecs_to_jiffies kernel_hz1000 200"
    by (simp add: loaded_state window_hz1000)
  show ?thesis
    using h window_edge_accepted [OF h, of 0] by (simp add: Let_def loaded_state)
qed

text \<open>
  C9. The stored timestamp is 0 when the module is loaded and init does not change it. So
  after a successful init, as long as every notification is processed at a time less than
  the window after 0 (unsigned), each one is rejected although no edge has been accepted
  before: the state stays as init left it, with no toggle and no write to the LED line,
  whatever level the button line has.
\<close>

theorem early_notifications_rejected:
  assumes "gpio_button_led_init k module_load_state = (0, s)"
    and "\<forall>(t, l) \<in> set ns. t - 0 < msecs_to_jiffies k 200"
  shows "last_interrupt_time s = 0 \<and> run k s (map (\<lambda>(t, l). Work t l) ns) = s"
proof -
  from init_success_state [OF assms(1)] have z: "last_interrupt_time s = 0"
    by (metis module_state.select_convs(4))
  from assms(2) have "run k s (map (\<lambda>(t, l). Work t l) ns) = s"
  proof (induction ns)
    case Nil
    then show ?case by (simp add: run_Nil)
  next
    case (Cons n ns)
    obtain t l where n: "n = (t, l)" by (cases n)
    from Cons.prems n have "t < msecs_to_jiffies k 200" by simp
    with z have "step k s (Work t l) = s" by (simp add: handler_cases)
    with Cons n show ?case by (simp add: run_Cons)
  qed
  with z show ?thesis by simp
qed

theorem early_notifications_rejected_witness:
  "gpio_button_led_init kernel_hz1000 module_load_state = (0, loaded) \<and>
   list_all (\<lambda>(t, l). t - 0 < msecs_to_jiffies kernel_hz1000 200)
     [(0 :: ulong, 0 :: int), (50, 0), (199, 1)] \<and>
   last_interrupt_time loaded = 0 \<and>
   run kernel_hz1000 loaded [Work 0 0, Work 50 0, Work 199 1] = loaded"
proof -
  have h: "\<forall>(t, l) \<in> set [(0 :: ulong, 0 :: int), (50, 0), (199, 1)].
      t - 0 < msecs_to_jiffies kernel_hz1000 200"
    by (simp add: window_hz1000)
  show ?thesis
    using loaded_eq h early_notifications_rejected [OF loaded_eq h]
    by (simp add: list_all_iff)
qed

text \<open>
  C3, as the claim states it, fails on the state a successful init leaves, where the stored
  timestamp is 0. On a kernel with HZ = 1000 (window 200), the presses processed at 0, 50
  and 250 do not toggle at 0 and at 250: only the one at 250 toggles. Likewise the two
  presses at 0 and 250, which are 250 apart, do not both toggle.
\<close>

theorem scenario_one_toggles_once:
  "gpio_button_led_init kernel_hz1000 module_load_state = (0, loaded) \<and>
   msecs_to_jiffies kernel_hz1000 200 = 200 \<and>
   toggling kernel_hz1000 loaded [Work 0 0, Work 50 0, Work 250 0] \<noteq> [Work 0 0, Work 250 0] \<and>
   \<not> (250 :: ulong) - 0 < 200 \<and>
   toggling kernel_hz1000 loaded [Work 0 0, Work 250 0] \<noteq> [Work 0 0, Work 250 0]"
  unfolding scenario_one two_spaced_presses
  using loaded_eq window_hz1000 by simp

text \<open>
  C3, amended. When each timestamp is at least the window after the one before, the first
  one at least the window after the stored timestamp (unsigned arithmetic), and the button
  line reads pressed at each evaluation, then every notification of the sequence toggles
  \<open>led_state\<close>, and after each step the level last written to the LED line is
  \<open>led_state\<close>. With window 200 and presses processed at 0, 50 and 250 after init,
  exactly one toggle occurs, at 250.
\<close>

theorem spaced_presses_all_toggle:
  "(spaced (msecs_to_jiffies k 200) (last_interrupt_time s) ts \<longrightarrow>
      toggling k s (map (\<lambda>t. Work t 0) ts) = map (\<lambda>t. Work t 0) ts \<and>
      (\<forall>s' \<in> set (states_after k s (map (\<lambda>t. Work t 0) ts)). mirrors s')) \<and>
   toggling kernel_hz1000 loaded [Work 0 0, Work 50 0, Work 250 0] = [Work 250 0]"
  using pressed_run [of k s ts] scenario_one by blast

theorem spaced_presses_all_toggle_witness:
  "spaced (msecs_to_jiffies kernel_hz1000 200) (last_interrupt_time loaded)
     [200, 400, 4294967295, 199] \<and>
   toggling kernel_hz1000 loaded [Work 200 0, Work 400 0, Work 4294967295 0, Work 199 0] =
     [Work 200 0, Work 400 0, Work 4294967295 0, Work 199 0] \<and>
   list_all mirrors (states_after kernel_hz1000 loaded
     [Work 200 0, Work 400 0, Work 4294967295 0, Work 199 0])"
proof -
  have h: "spaced (msecs_to_jiffies kernel_hz1000 200) (last_interrupt_time loaded)
      [200, 400, 4294967295, 199]"
    by (simp add: loaded_state window_hz1000)
  show ?thesis
    using h spaced_presses_all_toggle [of kernel_hz1000 loaded "[200, 400, 4294967295, 199]"]
    by (simp add: list_all_iff)
qed

section \<open>Shutdown\<close>

text \<open>
  C7. Whatever the state, and so whatever \<open>led_state\<close> was, exit makes exactly these
  kernel calls, in this order: \<^verbatim>\<open>free_irq\<close> (the interrupt is disarmed),
  \<^verbatim>\<open>destroy_workqueue\<close> (which returns once the work item is no longer queued or
  running), \<^verbatim>\<open>gpio_set_value(LED_GPIO, 0)\<close>, \<^verbatim>\<open>gpio_free(LED_GPIO)\<close>,
  \<^verbatim>\<open>gpio_free(BUTTON_GPIO)\<close>. The interrupt is released before either line.
\<close>

theorem exit_call_order:
  "trace (gpio_button_led_exit s) =
     trace s @ [FreeIrq (irq_number s), DestroyWorkqueue, GpioSetValue LED_GPIO 0,
                GpioFree LED_GPIO, GpioFree BUTTON_GPIO]"
  by (simp add: gpio_button_led_exit_def unfold_state)

section \<open>Startup\<close>

text \<open>
  C6. Init returns a failure exactly when one of the steps it checks fails: the validity or
  the request of the button line, its direction, the validity or the request of the LED
  line, its direction, the creation of the workqueue, or \<^verbatim>\<open>request_irq\<close>. Whenever
  it returns a failure, the result is negative, the resources acquired so far have been
  released in the reverse order of their acquisition, none is still held, and no
  \<^verbatim>\<open>request_irq\<close> has succeeded. In particular, when the LED line number is not valid
  the button line, already requested, is freed, and \<^verbatim>\<open>request_irq\<close> is never called.
\<close>

theorem init_failure_rolls_back:
  assumes "gpio_button_led_init k module_load_state = (r, s)"
  shows "(r \<noteq> 0 \<longleftrightarrow>
            \<not> gpio_is_valid k BUTTON_GPIO \<or> gpio_request k BUTTON_GPIO < 0 \<or>
            gpio_direction_input k BUTTON_GPIO < 0 \<or>
            \<not> gpio_is_valid k LED_GPIO \<or> gpio_request k LED_GPIO < 0 \<or>
            gpio_direction_output k LED_GPIO 0 < 0 \<or>
            \<not> create_singlethread_workqueue k \<or>
            request_irq k (word_of_int (gpio_to_irq k BUTTON_GPIO)) < 0) \<and>
         (r \<noteq> 0 \<longrightarrow>
            r < 0 \<and>
            released (trace s) = rev (acquired (trace s)) \<and>
            live (trace s) = [] \<and>
            (\<forall>n x. RequestIrq n x \<in> set (trace s) \<longrightarrow> x < 0)) \<and>
         (gpio_is_valid k BUTTON_GPIO \<and> \<not> gpio_request k BUTTON_GPIO < 0 \<and>
          \<not> gpio_direction_input k BUTTON_GPIO < 0 \<and> \<not> gpio_is_valid k LED_GPIO \<longrightarrow>
            r = - ENODEV \<and>
            trace s = [GpioIsValid BUTTON_GPIO True,
                       GpioRequest BUTTON_GPIO (gpio_request k BUTTON_GPIO),
                       GpioDirectionInput BUTTON_GPIO (gpio_direction_input k BUTTON_GPIO),
                       GpioIsValid LED_GPIO False,
                       GpioFree BUTTON_GPIO])"
  using assms
  by (auto simp: init_unfold trace_reading BUTTON_GPIO_def LED_GPIO_def split: if_splits)

theorem init_failure_rolls_back_witness:
  "fst (gpio_button_led_init kernel_led_invalid module_load_state) = - 19 \<and>
   acquired (trace (snd (gpio_button_led_init kernel_led_invalid module_load_state))) = [Gpio 44] \<and>
   released (trace (snd (gpio_button_led_init kernel_led_invalid module_load_state))) = [Gpio 44] \<and>
   live (trace (snd (gpio_button_led_init kernel_led_invalid module_load_state))) = [] \<and>
   trace (snd (gpio_button_led_init kernel_led_invalid module_load_state)) =
     [GpioIsValid 44 True, GpioRequest 44 0, GpioDirectionInput 44 0, GpioIsValid 61 False,
      GpioFree 44] \<and>
   fst (gpio_button_led_init kernel_irq_busy module_load_state) = - 16 \<and>
   acquired (trace (snd (gpio_button_led_init kernel_irq_busy module_load_state))) =
     [Gpio 44, Gpio 61, Workqueue] \<and>
   released (trace (snd (gpio_button_led_init kernel_irq_busy module_load_state))) =
     [Workqueue, Gpio 61, Gpio 44] \<and>
   live (trace (snd (gpio_button_led_init kernel_irq_busy module_load_state))) = []"
proof -
  have a: "acquired [GpioIsValid 44 True, GpioRequest 44 0, GpioDirectionInput 44 0,
      GpioIsValid 61 False, GpioFree 44] = [Gpio 44]"
    by (simp add: acquired_def)
  have b: "acquired [GpioIsValid 44 True, GpioRequest 44 0, GpioDirectionInput 44 0,
      GpioIsValid 61 True, GpioRequest 61 0, GpioDirectionOutput 61 0 0,
      CreateWorkqueue True, InitWork, GpioToIrq 44 76, RequestIrq 76 (- 16),
      DestroyWorkqueue, GpioFree 61, GpioFree 44] = [Gpio 44, Gpio 61, Workqueue]"
    by (simp add: acquired_def)
  let ?s1 = "snd (gpio_button_led_init kernel_led_invalid module_load_state)"
  let ?s2 = "snd (gpio_button_led_init kernel_irq_busy module_load_state)"
  have n: "(- 19 :: int) \<noteq> 0" "(- 16 :: int) \<noteq> 0"
    by simp_all
  have t2: "trace ?s2 = [GpioIsValid 44 True, GpioRequest 44 0, GpioDirectionInput 44 0,
      GpioIsValid 61 True, GpioRequest 61 0, GpioDirectionOutput 61 0 0,
      CreateWorkqueue True, InitWork, GpioToIrq 44 76, RequestIrq 76 (- 16),
      DestroyWorkqueue, GpioFree 61, GpioFree 44]"
    by (simp add: irq_busy_eq)
  have e1: "gpio_button_led_init kernel_led_invalid module_load_state = (- 19, ?s1)"
    and e2: "gpio_button_led_init kernel_irq_busy module_load_state = (- 16, ?s2)"
    by (simp_all add: led_invalid_eq irq_busy_eq)
  have v: "gpio_is_valid kernel_led_invalid BUTTON_GPIO \<and>
      \<not> gpio_request kernel_led_invalid BUTTON_GPIO < 0 \<and>
      \<not> gpio_direction_input kernel_led_invalid BUTTON_GPIO < 0 \<and>
      \<not> gpio_is_valid kernel_led_invalid LED_GPIO"
    by (simp add: kernel_led_invalid_def kernel_hz1000_def BUTTON_GPIO_def LED_GPIO_def)
  from init_failure_rolls_back [OF e1] v
  have "trace ?s1 = [GpioIsValid BUTTON_GPIO True,
      GpioRequest BUTTON_GPIO (gpio_request kernel_led_invalid BUTTON_GPIO),
      GpioDirectionInput BUTTON_GPIO (gpio_direction_input kernel_led_invalid BUTTON_GPIO),
      GpioIsValid LED_GPIO False, GpioFree BUTTON_GPIO]"
    by blast
  then have t1: "trace ?s1 = [GpioIsValid 44 True, GpioRequest 44 0, GpioDirectionInput 44 0,
      GpioIsValid 61 False, GpioFree 44]"
    by (simp add: kernel_led_invalid_def kernel_hz1000_def BUTTON_GPIO_def LED_GPIO_def)
  from init_failure_rolls_back [OF e1] n(1)
  have r1: "released (trace ?s1) = rev (acquired (trace ?s1))" and l1: "live (trace ?s1) = []"
    by blast+
  from init_failure_rolls_back [OF e2] n(2)
  have r2: "released (trace ?s2) = rev (acquired (trace ?s2))" and l2: "live (trace ?s2) = []"
    by blast+
  have f: "fst (gpio_button_led_init kernel_led_invalid module_load_state) = - 19"
    "fst (gpio_button_led_init kernel_irq_busy module_load_state) = - 16"
    by (simp_all add: led_invalid_eq irq_busy_eq)
  from r1 r2 have "released (trace ?s1) = [Gpio 44]"
    "released (trace ?s2) = [Workqueue, Gpio 61, Gpio 44]"
    by (simp_all only: t1 t2 a b rev.simps append.simps)
  with l1 l2 f t1 show ?thesis
    by (simp only: t1 t2 a b simp_thms)
qed



section \<open>The LED line over the life of the module\<close>

text \<open>
  C5, as the claim states it, fails across exit: after a successful init and one accepted
  press, \<open>led_state\<close> is true; exit writes 0 to the LED line and leaves \<open>led_state\<close> true.
\<close>

theorem mirror_broken_across_exit:
  "gpio_button_led_init kernel_hz1000 module_load_state = (0, loaded) \<and>
   led_state (gpio_button_led_exit (run kernel_hz1000 loaded [Work 250 0])) \<and>
   line_level LED_GPIO (trace (gpio_button_led_exit (run kernel_hz1000 loaded [Work 250 0]))) = Some 0 \<and>
   \<not> mirrors (gpio_button_led_exit (run kernel_hz1000 loaded [Work 250 0]))"
  by (simp add: loaded_eq run_def handler_cases loaded_state window_hz1000 mirrors_def
      gpio_button_led_exit_def unfold_state line_level_def drive_def LED_GPIO_def BUTTON_GPIO_def)

text \<open>
  C5, amended. After a successful init \<open>led_state\<close> is false and the LED line has been
  set to 0. After any sequence of interrupts and evaluations, \<open>led_state\<close> is the level
  last written to the LED line. A step changes \<open>led_state\<close> only when it is an evaluation
  that passes the filter and reads the button line as 0, and that same step writes the new
  value to the LED line. Exit writes 0 to the LED line and does not change \<open>led_state\<close>.
\<close>

theorem led_state_mirrors_line_until_exit:
  assumes "gpio_button_led_init k module_load_state = (0, s0)"
  shows "\<not> led_state s0 \<and> line_level LED_GPIO (trace s0) = Some 0 \<and>
         mirrors (run k s0 evs) \<and>
         (led_state (step k (run k s0 evs) e) \<noteq> led_state (run k s0 evs) \<longrightarrow>
            (\<exists>t. e = Work t 0 \<and>
                 \<not> t - last_interrupt_time (run k s0 evs) < msecs_to_jiffies k 200) \<and>
            trace (step k (run k s0 evs) e) =
              trace (run k s0 evs) @
                [GpioGetValue BUTTON_GPIO 0,
                 GpioSetValue LED_GPIO (of_bool (led_state (step k (run k s0 evs) e)))]) \<and>
         led_state (gpio_button_led_exit (run k s0 evs)) = led_state (run k s0 evs) \<and>
         line_level LED_GPIO (trace (gpio_button_led_exit (run k s0 evs))) = Some 0"
proof -
  from init_success_state [OF assms]
  have a: "\<not> led_state s0" and b: "line_level LED_GPIO (trace s0) = Some 0"
    by (auto simp: line_level_def drive_def LED_GPIO_def BUTTON_GPIO_def)
  from a b have "mirrors s0" by (simp add: mirrors_def)
  then have "mirrors (run k s0 evs)" by (rule run_mirrors)
  with a b show ?thesis
    using step_changes_led [of k "run k s0 evs" e] exit_led [of "run k s0 evs"] by blast
qed

theorem led_state_mirrors_line_until_exit_witness:
  "gpio_button_led_init kernel_hz1000 module_load_state = (0, loaded) \<and>
   mirrors (run kernel_hz1000 loaded [Edge, Work 250 0]) \<and>
   led_state (run kernel_hz1000 loaded [Edge, Work 250 0]) \<and>
   \<not> led_state (step kernel_hz1000 (run kernel_hz1000 loaded [Edge, Work 250 0]) (Work 500 0)) \<and>
   trace (step kernel_hz1000 (run kernel_hz1000 loaded [Edge, Work 250 0]) (Work 500 0)) =
     trace (run kernel_hz1000 loaded [Edge, Work 250 0]) @
       [GpioGetValue BUTTON_GPIO 0, GpioSetValue LED_GPIO 0] \<and>
   led_state (gpio_button_led_exit (run kernel_hz1000 loaded [Edge, Work 250 0])) \<and>
   line_level LED_GPIO (trace (gpio_button_led_exit (run kernel_hz1000 loaded [Edge, Work 250 0])))
     = Some 0"
proof -
  have r: "led_state (run kernel_hz1000 loaded [Edge, Work 250 0])"
    "\<not> led_state (step kernel_hz1000 (run kernel_hz1000 loaded [Edge, Work 250 0]) (Work 500 0))"
    by (simp_all add: run_def handler_cases button_irq_handler_def emit_def loaded_state window_hz1000)
  show ?thesis
    using loaded_eq r
      led_state_mirrors_line_until_exit [OF loaded_eq, of "[Edge, Work 250 0]" "Work 500 0"]
    by simp
qed

end
